theory Spec2Isabelle
  imports Main "HOL-Library.Char_ord" "HOL-Library.List_Lexorder"
begin

text \<open>
  A model of \<^verbatim>\<open>lib/index.js\<close> of metalsmith-link-checker: the validators of links by
  scheme, the resolver of local links, the validator of remote URLs with its cache, its
  fallback from \<^verbatim>\<open>HEAD\<close> to \<^verbatim>\<open>GET\<close> and its retries, and the run of the plugin with the report
  it hands to its completion callback. Strings are compared as lists of characters in
  the order of their codes, which is the order of \<^verbatim>\<open>Array.prototype.sort\<close> on strings.
\<close>

section \<open>Strings and regular expressions of the link checker\<close>

text \<open>
  A JavaScript string is modelled as a \<^typ>\<open>string\<close>, one \<^typ>\<open>char\<close> per code unit.
  The validators of \<^verbatim>\<open>lib/index.js\<close> only ask whether a regular expression matches a
  link (\<^verbatim>\<open>link.match(re)\<close> used as a truth value), so a regular expression is modelled by
  its syntax tree and matching by Brzozowski derivatives, which decide membership in the
  language of the expression. The anchors \<^verbatim>\<open>^\<close> and \<^verbatim>\<open>$\<close> are modelled by the three test
  functions below.
\<close>

datatype regex =
    Eps
  | OneOf "char list"
  | NoneOf "char list"
  | Seq regex regex
  | Alt regex regex
  | Star regex

text \<open>A literal character, a literal string, \<^verbatim>\<open>r+\<close>, \<^verbatim>\<open>r?\<close> and the dot.\<close>

definition Lit :: "char \<Rightarrow> regex" where
  "Lit c = OneOf [c]"

fun Str :: "string \<Rightarrow> regex" where
  "Str [] = Eps"
| "Str (c # cs) = Seq (Lit c) (Str cs)"

definition Plus :: "regex \<Rightarrow> regex" where
  "Plus r = Seq r (Star r)"

definition Opt :: "regex \<Rightarrow> regex" where
  "Opt r = Alt r Eps"

text \<open>
  The dot of a JavaScript regular expression without the \<^verbatim>\<open>s\<close> flag matches every
  character but a line terminator; of the four line terminators, line feed and carriage
  return are single characters of the model.
\<close>

definition line_terminators :: "char list" where
  "line_terminators = [CHR 0x0A, CHR 0x0D]"

definition Dot :: regex where
  "Dot = NoneOf line_terminators"

fun nullable :: "regex \<Rightarrow> bool" where
  "nullable Eps = True"
| "nullable (OneOf cs) = False"
| "nullable (NoneOf cs) = False"
| "nullable (Seq r s) = (nullable r \<and> nullable s)"
| "nullable (Alt r s) = (nullable r \<or> nullable s)"
| "nullable (Star r) = True"

fun deriv :: "char \<Rightarrow> regex \<Rightarrow> regex" where
  "deriv c Eps = OneOf []"
| "deriv c (OneOf cs) = (if c \<in> set cs then Eps else OneOf [])"
| "deriv c (NoneOf cs) = (if c \<in> set cs then OneOf [] else Eps)"
| "deriv c (Seq r s) =
     (if nullable r then Alt (Seq (deriv c r) s) (deriv c s) else Seq (deriv c r) s)"
| "deriv c (Alt r s) = Alt (deriv c r) (deriv c s)"
| "deriv c (Star r) = Seq (deriv c r) (Star r)"

fun matches :: "regex \<Rightarrow> string \<Rightarrow> bool" where
  "matches r [] = nullable r"
| "matches r (c # cs) = matches (deriv c r) cs"

text \<open>\<^verbatim>\<open>/^r$/\<close>: the whole string; \<^verbatim>\<open>/^r/\<close>: a prefix; \<^verbatim>\<open>/r/\<close>: anywhere.\<close>

definition test_whole :: "regex \<Rightarrow> string \<Rightarrow> bool" where
  "test_whole r s = matches r s"

definition test_prefix :: "regex \<Rightarrow> string \<Rightarrow> bool" where
  "test_prefix r s = matches (Seq r (Star (NoneOf []))) s"

definition test_search :: "regex \<Rightarrow> string \<Rightarrow> bool" where
  "test_search r s = matches (Seq (Star (NoneOf [])) (Seq r (Star (NoneOf [])))) s"

text \<open>The language of a regular expression, the specification of \<^const>\<open>matches\<close>.\<close>

definition conc :: "string set \<Rightarrow> string set \<Rightarrow> string set" where
  "conc A B = {u @ v | u v. u \<in> A \<and> v \<in> B}"

inductive_set star :: "string set \<Rightarrow> string set" for A :: "string set" where
  star_nil: "[] \<in> star A"
| star_app: "u \<in> A \<Longrightarrow> v \<in> star A \<Longrightarrow> u @ v \<in> star A"

fun lang :: "regex \<Rightarrow> string set" where
  "lang Eps = {[]}"
| "lang (OneOf cs) = {[c] | c. c \<in> set cs}"
| "lang (NoneOf cs) = {[c] | c. c \<notin> set cs}"
| "lang (Seq r s) = conc (lang r) (lang s)"
| "lang (Alt r s) = lang r \<union> lang s"
| "lang (Star r) = star (lang r)"

section \<open>Lexical validators\<close>

text \<open>
  A validation result is \<^verbatim>\<open>null\<close> (valid) or a diagnostic string:
  \<^term>\<open>None\<close> is \<^verbatim>\<open>null\<close>.
\<close>

type_synonym result = "string option"

definition mailto_keys :: regex where
  "mailto_keys = Alt (Str ''subject'') (Alt (Str ''cc'') (Alt (Str ''bcc'') (Str ''body'')))"

text \<open>\<^verbatim>\<open>/^mailto:[^@]+/\<close>\<close>

definition re_mailto_local :: regex where
  "re_mailto_local = Seq (Str ''mailto:'') (Plus (NoneOf ''@''))"

text \<open>\<^verbatim>\<open>/^mailto:[^@]+@[^?]+/\<close>\<close>

definition re_mailto_domain :: regex where
  "re_mailto_domain =
     Seq (Str ''mailto:'') (Seq (Plus (NoneOf ''@'')) (Seq (Lit CHR ''@'') (Plus (NoneOf ''?''))))"

text \<open>
  \<^verbatim>\<open>/^mailto:[^@]+@[^?]+(\?(subject|cc|bcc|body)=[^&]+(&(subject|cc|bcc|body)=[^&]+)?)?$/\<close>
\<close>

definition re_mailto_query :: regex where
  "re_mailto_query =
     Seq re_mailto_domain
       (Opt (Seq (Lit CHR ''?'') (Seq mailto_keys (Seq (Lit CHR ''='') (Seq (Plus (NoneOf ''&''))
          (Opt (Seq (Lit CHR ''&'') (Seq mailto_keys (Seq (Lit CHR ''='')
             (Plus (NoneOf ''&'')))))))))))"

definition validMailto :: "string \<Rightarrow> result" where
  "validMailto link =
     (if \<not> test_prefix re_mailto_local link then Some ''invalid local-part''
      else if \<not> test_prefix re_mailto_domain link then Some ''invalid domain''
      else if \<not> test_whole re_mailto_query link then Some ''invalid query params''
      else None)"

text \<open>\<^verbatim>\<open>/^sms:([0-9.+-]+)?$/\<close> and \<^verbatim>\<open>/^tel:([0-9.+-]+)?$/\<close>\<close>

definition phone_chars :: "char list" where
  "phone_chars = ''0123456789.+-''"

definition re_sms :: regex where
  "re_sms = Seq (Str ''sms:'') (Opt (Plus (OneOf phone_chars)))"

definition re_tel :: regex where
  "re_tel = Seq (Str ''tel:'') (Opt (Plus (OneOf phone_chars)))"

text \<open>\<^verbatim>\<open>link.replace(/ /g, "")\<close>\<close>

definition strip_spaces :: "string \<Rightarrow> string" where
  "strip_spaces link = filter (\<lambda>c. c \<noteq> CHR '' '') link"

definition validSms :: "string \<Rightarrow> result" where
  "validSms link =
     (if \<not> test_whole re_sms (strip_spaces link) then Some ''invalid''
      else if CHR '' '' \<in> set link then Some ''contains a space''
      else None)"

definition validTel :: "string \<Rightarrow> result" where
  "validTel link =
     (if \<not> test_whole re_tel (strip_spaces link) then Some ''invalid''
      else if CHR '' '' \<in> set link then Some ''contains a space''
      else None)"

text \<open>
  \<^verbatim>\<open>/[0-9]/\<close>, \<^verbatim>\<open>/^facetime:[^@]+@.+$/\<close> and \<^verbatim>\<open>/^facetime:[0-9.+-]+$/\<close>
\<close>

definition re_digit :: regex where
  "re_digit = OneOf ''0123456789''"

definition re_facetime_email :: regex where
  "re_facetime_email =
     Seq (Str ''facetime:'') (Seq (Plus (NoneOf ''@'')) (Seq (Lit CHR ''@'') (Plus Dot)))"

definition re_facetime_phone :: regex where
  "re_facetime_phone = Seq (Str ''facetime:'') (Plus (OneOf phone_chars))"

definition validFacetime :: "string \<Rightarrow> result" where
  "validFacetime link =
     (if link = ''facetime:'' then None
      else if CHR ''@'' \<notin> set link \<and> \<not> test_search re_digit link then Some ''invalid''
      else if CHR ''@'' \<in> set link then
        (if \<not> test_whole re_facetime_email link then Some ''invalid email address'' else None)
      else if CHR '' '' \<in> set link then Some ''contains a space''
      else if \<not> test_whole re_facetime_phone link then Some ''invalid phone number''
      else None)"

section \<open>Plain objects used as maps\<close>

text \<open>
  The checker keeps its tables in object literals (\<^verbatim>\<open>{}\<close>), whose prototype is
  \<^verbatim>\<open>Object.prototype\<close>. The operator \<^verbatim>\<open>in\<close> and a property read \<^verbatim>\<open>obj[key]\<close> both
  follow the prototype chain, so besides the own keys of the object they find the members
  of \<^verbatim>\<open>Object.prototype\<close>, each of which is a function or an object, hence truthy.
\<close>

definition object_prototype_props :: "string list" where
  "object_prototype_props =
     [''constructor'', ''hasOwnProperty'', ''isPrototypeOf'', ''propertyIsEnumerable'',
      ''toLocaleString'', ''toString'', ''valueOf'', ''__defineGetter__'', ''__defineSetter__'',
      ''__lookupGetter__'', ''__lookupSetter__'', ''__proto__'']"

text \<open>
  An object literal is given by the map of its own properties; \<open>js_in key obj\<close> is
  \<^verbatim>\<open>key in obj\<close>.
\<close>

definition js_in :: "string \<Rightarrow> (string \<rightharpoonup> 'a) \<Rightarrow> bool" where
  "js_in key obj = (obj key \<noteq> None \<or> key \<in> set object_prototype_props)"

text \<open>
  What the code does outside the values it is typed for: a \<^verbatim>\<open>TypeError\<close> is thrown, or a
  member of \<^verbatim>\<open>Object.prototype\<close> is handed on where a validation result is expected.
\<close>

datatype js_error = TypeError | InheritedMember

section \<open>Paths (\<^verbatim>\<open>path.dirname\<close> and \<^verbatim>\<open>path.join\<close> of Node.js, POSIX flavour)\<close>

text \<open>\<^verbatim>\<open>parts.join(sep)\<close>\<close>

fun join :: "string \<Rightarrow> string list \<Rightarrow> string" where
  "join sep [] = []"
| "join sep [x] = x"
| "join sep (x # y # ys) = x @ sep @ join sep (y # ys)"

fun split_on :: "char \<Rightarrow> string \<Rightarrow> string list" where
  "split_on c [] = [[]]"
| "split_on c (x # xs) =
     (if x = c then [] # split_on c xs
      else (case split_on c xs of [] \<Rightarrow> [[x]] | p # ps \<Rightarrow> (x # p) # ps))"

text \<open>
  \<^verbatim>\<open>normalizeString\<close> walks the segments between slashes: an empty segment and \<^verbatim>\<open>.\<close> are
  dropped, \<^verbatim>\<open>..\<close> removes the last kept segment unless there is none or it is \<^verbatim>\<open>..\<close>
  itself (then \<^verbatim>\<open>..\<close> is kept when the path is relative), any other segment is kept.
\<close>

definition normalize_step :: "bool \<Rightarrow> string list \<Rightarrow> string \<Rightarrow> string list" where
  "normalize_step allowAboveRoot res seg =
     (if seg = [] \<or> seg = ''.'' then res
      else if seg = ''..'' then
        (if res \<noteq> [] \<and> last res \<noteq> ''..'' then butlast res
         else if allowAboveRoot then res @ [''..'']
         else res)
      else res @ [seg])"

definition normalizeString :: "string \<Rightarrow> bool \<Rightarrow> string" where
  "normalizeString path allowAboveRoot =
     join ''/'' (foldl (normalize_step allowAboveRoot) [] (split_on CHR ''/'' path))"

definition normalize :: "string \<Rightarrow> string" where
  "normalize path =
     (if path = [] then ''.''
      else
        (let isAbsolute = (hd path = CHR ''/'');
             trailingSeparator = (last path = CHR ''/'');
             p = normalizeString path (\<not> isAbsolute)
         in if p = [] then (if isAbsolute then ''/'' else if trailingSeparator then ''./'' else ''.'')
            else (if isAbsolute then ''/'' else []) @ p @ (if trailingSeparator then ''/'' else [])))"

definition path_join :: "string \<Rightarrow> string \<Rightarrow> string" where
  "path_join a b =
     (let args = filter (\<lambda>arg. arg \<noteq> []) [a, b]
      in if args = [] then ''.'' else normalize (join ''/'' args))"

text \<open>
  The loop of \<^verbatim>\<open>dirname\<close> runs from the last index down to index 1 and stops at the first
  slash found after a character that is no slash.
\<close>

fun dirname_end :: "string \<Rightarrow> nat \<Rightarrow> bool \<Rightarrow> nat option" where
  "dirname_end path 0 matchedSlash = None"
| "dirname_end path (Suc i) matchedSlash =
     (if path ! Suc i = CHR ''/'' then
        (if \<not> matchedSlash then Some (Suc i) else dirname_end path i matchedSlash)
      else dirname_end path i False)"

definition dirname :: "string \<Rightarrow> string" where
  "dirname path =
     (if path = [] then ''.''
      else
        (let hasRoot = (hd path = CHR ''/'')
         in case dirname_end path (length path - 1) True of
              None \<Rightarrow> (if hasRoot then ''/'' else ''.'')
            | Some e \<Rightarrow> if hasRoot \<and> e = 1 then ''//'' else take e path))"

section \<open>Local resolver\<close>

text \<open>
  \<^verbatim>\<open>dest.replace(/#.*$/, "")\<close>: the leftmost \<open>c\<close> that is followed, up to the end of the
  string, by characters the dot matches, is removed together with what follows it.
\<close>

fun strip_tail :: "char \<Rightarrow> string \<Rightarrow> string" where
  "strip_tail c [] = []"
| "strip_tail c (x # xs) =
     (if x = c \<and> test_whole (Star Dot) xs then [] else x # strip_tail c xs)"

definition self_reference :: "string \<Rightarrow> bool" where
  "self_reference p = (p = [] \<or> p = ''.'' \<or> p = ''./'')"

text \<open>
  \<open>files\<close> is the object \<^verbatim>\<open>normalizedFilenames\<close>, whose own keys are the document ids, each
  with the value \<^verbatim>\<open>true\<close>.
\<close>

definition validLocal :: "(string \<rightharpoonup> bool) \<Rightarrow> string \<Rightarrow> string \<Rightarrow> bool" where
  "validLocal files src dest0 =
     (let dest = strip_tail CHR ''?'' (strip_tail CHR ''#'' dest0)
      in if self_reference dest then True
         else
           (let linkPath = (if take 1 dest = ''/'' then drop 1 dest
                            else path_join (dirname src) dest)
            in if self_reference linkPath then True
               else if js_in linkPath files then True
               else
                 (let index = path_join linkPath ''index.html''
                  in if js_in index files then True else False)))"

section \<open>Network validator\<close>

datatype http_method = HEAD | GET

text \<open>
  What a request comes to: the response callback runs with a status code, or the
  \<^verbatim>\<open>error\<close> event fires with a message (a timeout destroys the request, which fires it too).
\<close>

datatype response = Status nat | TransportError string

text \<open>
  The network is a parameter: the response to the \<open>n\<close>-th request issued so far, for the
  given URL and method.
\<close>

type_synonym network = "nat \<Rightarrow> string \<Rightarrow> http_method \<Rightarrow> response"

text \<open>
  The options the checking depends on: \<^verbatim>\<open>attempts\<close>, and \<^verbatim>\<open>ignore\<close> as the tests of the
  compiled regular expressions.
\<close>

record options =
  attempts :: int
  ignore :: "(string \<Rightarrow> bool) list"

text \<open>
  \<^verbatim>\<open>validUrlCache\<close> is the object declared at module level (line 135), given by its own
  properties. \<open>requests\<close> and \<open>timers\<close> record the calls of \<^verbatim>\<open>library.request\<close> (the
  URL, the method and the attempt they belong to) and the delays given to \<^verbatim>\<open>setTimeout\<close>,
  in order.
\<close>

record world =
  validUrlCache :: "string \<rightharpoonup> result"
  requests :: "(string \<times> http_method \<times> nat) list"
  timers :: "nat list"

definition truthy :: "result \<Rightarrow> bool" where
  "truthy r = (case r of None \<Rightarrow> False | Some s \<Rightarrow> s \<noteq> [])"

text \<open>The decimal digits of a number, as the template literal of line 181 prints it.\<close>

function show_nat :: "nat \<Rightarrow> string" where
  "show_nat n =
     (if n < 10 then [''0123456789'' ! n]
      else show_nat (n div 10) @ [''0123456789'' ! (n mod 10)])"
  by pat_completeness auto
termination
  by (relation "measure id") auto

declare show_nat.simps [simp del]

text \<open>
  One validation at a time: the callbacks of the request and of the timer run in the
  order in which the code registers them. The callback's \<^verbatim>\<open>err\<close> argument is
  \<^verbatim>\<open>null\<close> at every call, so the value handed to the callback is the result alone.
  The test \<^verbatim>\<open>!res\<close> of line 178 comes after \<^verbatim>\<open>res.statusCode\<close> has been read, so its
  branch is never taken.
\<close>

function validUrl ::
    "network \<Rightarrow> options \<Rightarrow> string \<Rightarrow> nat \<Rightarrow> http_method \<Rightarrow> world \<Rightarrow> js_error + (result \<times> world)"
  and cacheAndCallback ::
    "network \<Rightarrow> options \<Rightarrow> string \<Rightarrow> nat \<Rightarrow> http_method \<Rightarrow> result \<Rightarrow> world
       \<Rightarrow> js_error + (result \<times> world)"
where
  "validUrl net opts link attempt method w =
     (if js_in link (validUrlCache w) then
        (case validUrlCache w link of
           Some cached \<Rightarrow> Inr (cached, w)
         | None \<Rightarrow> Inl InheritedMember)
      else
        (let w1 = w\<lparr>requests := requests w @ [(link, method, attempt)]\<rparr>
         in case net (length (requests w)) link method of
              Status statusCode \<Rightarrow>
                if statusCode = 405 \<and> method \<noteq> GET then validUrl net opts link attempt GET w1
                else if 400 \<le> statusCode \<and> statusCode \<le> 599 then
                  cacheAndCallback net opts link attempt method
                    (Some (''HTTP '' @ show_nat statusCode)) w1
                else cacheAndCallback net opts link attempt method None w1
            | TransportError message \<Rightarrow>
                if method \<noteq> GET then validUrl net opts link attempt GET w1
                else cacheAndCallback net opts link attempt method (Some message) w1))"
| "cacheAndCallback net opts link attempt method result w =
     (if truthy result \<and> int attempt \<le> attempts opts then
        validUrl net opts link (attempt + 1) method
          (w\<lparr>timers := timers w @ [min 1000 (100 * 2 ^ attempt)]\<rparr>)
      else Inr (result, w\<lparr>validUrlCache := (validUrlCache w)(link \<mapsto> result)\<rparr>))"
  by pat_completeness auto
termination
  by (relation "measure (\<lambda>x. case x of
        Inl (net, opts, link, attempt, method, w) \<Rightarrow>
          4 * nat (attempts opts + 1 - int attempt) + (if method = GET then 2 else 3)
      | Inr (net, opts, link, attempt, method, result, w) \<Rightarrow>
          4 * nat (attempts opts + 1 - int attempt))") auto

declare validUrl.simps [simp del] cacheAndCallback.simps [simp del]

text \<open>The module as it is after loading: \<^verbatim>\<open>const validUrlCache = {}\<close>, nothing requested.\<close>

definition initial_world :: world where
  "initial_world = \<lparr>validUrlCache = Map.empty, requests = [], timers = []\<rparr>"





section \<open>Dispatcher and completion of a run\<close>

record occurrence =
  filename :: string
  link :: string

record checked = occurrence +
  result :: result

definition callbackResult :: "occurrence \<Rightarrow> string option \<Rightarrow> checked" where
  "callbackResult filenameAndLink r =
     \<lparr>filename = filename filenameAndLink, link = link filenameAndLink, result = r\<rparr>"

datatype validator = ValidFacetime | ValidUrl | ValidMailto | ValidSms | ValidTel

definition protocolValidators :: "(string \<times> validator) list" where
  "protocolValidators =
     [(''facetime:'', ValidFacetime), (''facetime-audio:'', ValidFacetime),
      (''http:'', ValidUrl), (''https:'', ValidUrl), (''mailto:'', ValidMailto),
      (''sms:'', ValidSms), (''tel:'', ValidTel)]"

text \<open>
  The function given to \<^verbatim>\<open>async.mapLimit\<close> (lines 378 to 413). The URL parser of the
  platform is a parameter: \<open>urlScheme\<close> gives the scheme of a link that parses as a URL, and
  \<^verbatim>\<open>linkUrl.protocol\<close> is that scheme followed by a colon; no member of \<^verbatim>\<open>Object.prototype\<close>
  has such a name, so the read of \<^verbatim>\<open>protocolValidators\<close> finds own keys only.
\<close>

definition checkLink ::
    "(string \<Rightarrow> string option) \<Rightarrow> network \<Rightarrow> options \<Rightarrow> (string \<rightharpoonup> bool) \<Rightarrow> occurrence
       \<Rightarrow> world
       \<Rightarrow> js_error + (checked \<times> world)" where
  "checkLink urlScheme net opts normalizedFilenames filenameAndLink w =
     (case urlScheme (link filenameAndLink) of
        Some scheme \<Rightarrow>
          (case map_of protocolValidators (scheme @ '':'') of
             Some ValidUrl \<Rightarrow>
               (case validUrl net opts (link filenameAndLink) 1 HEAD w of
                  Inl e \<Rightarrow> Inl e
                | Inr (r, w') \<Rightarrow> Inr (callbackResult filenameAndLink r, w'))
           | Some ValidFacetime \<Rightarrow>
               Inr (callbackResult filenameAndLink (validFacetime (link filenameAndLink)), w)
           | Some ValidMailto \<Rightarrow>
               Inr (callbackResult filenameAndLink (validMailto (link filenameAndLink)), w)
           | Some ValidSms \<Rightarrow>
               Inr (callbackResult filenameAndLink (validSms (link filenameAndLink)), w)
           | Some ValidTel \<Rightarrow>
               Inr (callbackResult filenameAndLink (validTel (link filenameAndLink)), w)
           | None \<Rightarrow> Inr (callbackResult filenameAndLink None, w))
      | None \<Rightarrow>
          Inr (callbackResult filenameAndLink
                 (if validLocal normalizedFilenames (filename filenameAndLink)
                       (link filenameAndLink)
                  then None else Some ''not found''), w))"

text \<open>
  \<^verbatim>\<open>async.mapLimit\<close>, one item at a time; the results come in the order of the items.
\<close>

fun mapLimit ::
    "('a \<Rightarrow> world \<Rightarrow> js_error + ('b \<times> world)) \<Rightarrow> 'a list \<Rightarrow> world
       \<Rightarrow> js_error + ('b list \<times> world)" where
  "mapLimit f [] w = Inr ([], w)"
| "mapLimit f (x # xs) w =
     (case f x w of
        Inl e \<Rightarrow> Inl e
      | Inr (y, w1) \<Rightarrow>
          (case mapLimit f xs w1 of
             Inl e \<Rightarrow> Inl e
           | Inr (ys, w2) \<Rightarrow> Inr (y # ys, w2)))"

text \<open>\<^verbatim>\<open>`${filenameAndLink.link} (${filenameAndLink.result})`\<close>\<close>

definition linkError :: "checked \<Rightarrow> string" where
  "linkError c = link c @ '' ('' @ (case result c of None \<Rightarrow> ''null'' | Some r \<Rightarrow> r) @ '')''"

text \<open>
  The object \<^verbatim>\<open>filenamesToLinkErrors\<close> is a list of its own properties in the order of
  their creation. \<open>push_line\<close> is \<^verbatim>\<open>obj[key].push(line)\<close>, after \<^verbatim>\<open>obj[key] = []\<close> where
  the key is new.
\<close>

fun push_line :: "string \<Rightarrow> string \<Rightarrow> (string \<times> string list) list \<Rightarrow> (string \<times> string list) list"
  where
  "push_line key line [] = [(key, [line])]"
| "push_line key line ((k, arr) # obj) =
     (if k = key then (k, arr @ [line]) # obj else (k, arr) # push_line key line obj)"

text \<open>
  The \<^verbatim>\<open>reduce\<close> of lines 422 to 430. Where the document id is no own key but the name of a
  member of \<^verbatim>\<open>Object.prototype\<close>, \<^verbatim>\<open>!obj[key]\<close> is false, no array is stored, and \<^verbatim>\<open>push\<close>
  is read from that member: a \<^verbatim>\<open>TypeError\<close>.
\<close>

fun filenamesToLinkErrors ::
    "(string \<times> string list) list \<Rightarrow> checked list \<Rightarrow> js_error + (string \<times> string list) list"
  where
  "filenamesToLinkErrors obj [] = Inr obj"
| "filenamesToLinkErrors obj (c # cs) =
     (if map_of obj (filename c) = None \<and> filename c \<in> set object_prototype_props
      then Inl TypeError
      else filenamesToLinkErrors (push_line (filename c) (linkError c) obj) cs)"

definition lines_of :: "(string \<times> string list) list \<Rightarrow> string \<Rightarrow> string list" where
  "lines_of obj key = (case map_of obj key of None \<Rightarrow> [] | Some arr \<Rightarrow> arr)"

text \<open>The calls of \<^verbatim>\<open>done\<close>, in order, each with its error argument.\<close>

datatype done_call = Done "string option"

text \<open>The callback of lines 414 to 448.\<close>

definition completion :: "string option \<Rightarrow> checked list \<Rightarrow> js_error + done_call list" where
  "completion err results =
     (case err of
        Some e \<Rightarrow> Inr [Done (Some e)]
      | None \<Rightarrow>
          (case filenamesToLinkErrors [] (filter (\<lambda>c. truthy (result c)) results) of
             Inl e \<Rightarrow> Inl e
           | Inr obj \<Rightarrow>
               if map fst obj \<noteq> [] then
                 (let message =
                    join ''\<newline>\<newline>''
                      (map (\<lambda>key. key @ '':\<newline>''
                              @ join ''\<newline>'' (map (\<lambda>line. ''  '' @ line) (sort (lines_of obj key))))
                         (sort (map fst obj)))
                  in Inr [Done (Some (''Broken links found:\<newline>\<newline>'' @ message)), Done None])
               else Inr [Done None]))"

text \<open>\<^verbatim>\<open>filename.replace(/[/\\]/g, "/")\<close>\<close>

definition normalize_filename :: "string \<Rightarrow> string" where
  "normalize_filename name = map (\<lambda>c. if c = CHR 0x5C then CHR ''/'' else c) name"

text \<open>The filter of lines 356 to 363: an item equal to an earlier one is dropped.\<close>

fun duplicateDetection :: "'a list \<Rightarrow> 'a list \<Rightarrow> 'a list" where
  "duplicateDetection seen [] = []"
| "duplicateDetection seen (v # vs) =
     (if v \<in> set seen then duplicateDetection seen vs
      else v # duplicateDetection (v # seen) vs)"

text \<open>
  One run of the plugin (lines 337 to 450). The occurrences found by \<^verbatim>\<open>htmlLinks\<close> and the
  permutation chosen by the shuffle are parameters. The world goes in and comes out: the
  module is loaded once, and its \<^verbatim>\<open>validUrlCache\<close> is what the previous run left.
\<close>

definition plugin ::
    "(string \<Rightarrow> string option) \<Rightarrow> network \<Rightarrow> (occurrence list \<Rightarrow> occurrence list) \<Rightarrow> options
       \<Rightarrow> string list \<Rightarrow> occurrence list \<Rightarrow> world \<Rightarrow> js_error + (done_call list \<times> world)" where
  "plugin urlScheme net shuffle opts fileKeys htmlLinks w =
     (let normalizedFilenames =
            foldl (\<lambda>reducer name. reducer(normalize_filename name \<mapsto> True)) Map.empty fileKeys;
          filenamesAndLinks =
            shuffle (filter (\<lambda>v. \<not> list_ex (\<lambda>re. re (link v)) (ignore opts))
                       (duplicateDetection [] htmlLinks))
      in case mapLimit (checkLink urlScheme net opts normalizedFilenames) filenamesAndLinks w of
           Inl e \<Rightarrow> Inl e
         | Inr (results, w') \<Rightarrow>
             (case completion None results of
                Inl e \<Rightarrow> Inl e
              | Inr calls \<Rightarrow> Inr (calls, w')))"


section \<open>Sample environments\<close>

text \<open>
  The defaults of lines 328 to 330, a URL parser for the links of the samples, and three
  networks: one where every request is answered with 200, one where every request is
  answered with 500, and one that answers \<^verbatim>\<open>HEAD\<close> with 405 and \<^verbatim>\<open>GET\<close> with 500.
\<close>

definition default_options :: options where
  "default_options = \<lparr>attempts = 3, ignore = []\<rparr>"

definition sample_urlScheme :: "string \<Rightarrow> string option" where
  "sample_urlScheme l =
     (if take 7 l = ''http://'' then Some ''http''
      else if take 8 l = ''https://'' then Some ''https''
      else None)"

definition net_ok :: network where
  "net_ok n u m = Status 200"




section \<open>The report as the specification words it\<close>

text \<open>
  An occurrence is broken when its result is tested as true. The report starts with the
  heading; the offending documents follow in lexicographic order, one block each, the
  blocks separated by a blank line; the block of a document is its id and a colon, then
  its lines \<^verbatim>\<open>link (reason)\<close> in lexicographic order, each behind two spaces.
\<close>

definition broken :: "checked list \<Rightarrow> checked list" where
  "broken results = filter (\<lambda>c. truthy (result c)) results"



section \<open>Correctness of the matcher\<close>

lemma conc_intro: "u \<in> A \<Longrightarrow> v \<in> B \<Longrightarrow> u @ v \<in> conc A B"
  by (auto simp: conc_def)

lemma nullable_lang: "nullable r \<longleftrightarrow> [] \<in> lang r"
  by (induction r) (auto simp: conc_def intro: star.star_nil)

lemma star_cons_split:
  assumes "w \<in> star A" and "w = c # s"
  shows "\<exists>u v. s = u @ v \<and> c # u \<in> A \<and> v \<in> star A"
  using assms
proof (induction arbitrary: s rule: star.induct)
  case star_nil
  then show ?case by simp
next
  case (star_app u v)
  show ?case
  proof (cases u)
    case Nil
    with star_app show ?thesis by simp
  next
    case (Cons a u')
    with star_app.prems have "a = c" and "s = u' @ v" by simp_all
    with Cons star_app.hyps show ?thesis by blast
  qed
qed

lemma star_cons_iff:
  "c # s \<in> star A \<longleftrightarrow> (\<exists>u v. s = u @ v \<and> c # u \<in> A \<and> v \<in> star A)"
proof
  assume "c # s \<in> star A"
  then show "\<exists>u v. s = u @ v \<and> c # u \<in> A \<and> v \<in> star A"
    using star_cons_split by blast
next
  assume "\<exists>u v. s = u @ v \<and> c # u \<in> A \<and> v \<in> star A"
  then obtain u v where "s = u @ v" "c # u \<in> A" "v \<in> star A" by blast
  then show "c # s \<in> star A"
    using star.star_app [of "c # u" A v] by simp
qed

lemma conc_cons_iff:
  "c # s \<in> conc A B \<longleftrightarrow>
     (\<exists>u v. s = u @ v \<and> c # u \<in> A \<and> v \<in> B) \<or> ([] \<in> A \<and> c # s \<in> B)"
  by (auto simp: conc_def Cons_eq_append_conv)

lemma deriv_lang: "s \<in> lang (deriv c r) \<longleftrightarrow> c # s \<in> lang r"
proof (induction r arbitrary: s)
  case (Seq r1 r2)
  then show ?case
    by (auto simp: conc_cons_iff nullable_lang) (auto simp: conc_def)
next
  case (Star r)
  then show ?case
    by (auto simp: star_cons_iff) (auto simp: conc_def)
qed auto

lemma matches_lang: "matches r s \<longleftrightarrow> s \<in> lang r"
  by (induction s arbitrary: r) (simp_all add: nullable_lang deriv_lang)

section \<open>Membership in the languages of the validators\<close>


lemma Seq_intro: "u \<in> lang r \<Longrightarrow> v \<in> lang s \<Longrightarrow> u @ v \<in> lang (Seq r s)"
  by (simp add: conc_intro)

lemma Lit_intro: "[c] \<in> lang (Lit c)"
  by (simp add: Lit_def)

lemma Str_intro: "t \<in> lang (Str t)"
proof (induction t)
  case Nil
  show ?case by simp
next
  case (Cons c t)
  have "[c] @ t \<in> lang (Seq (Lit c) (Str t))"
    using Lit_intro Cons by (rule Seq_intro)
  then show ?case by simp
qed

lemma Star_NoneOf_intro: "set s \<inter> set cs = {} \<Longrightarrow> s \<in> lang (Star (NoneOf cs))"
proof (induction s)
  case Nil
  show ?case by (simp add: star.star_nil)
next
  case (Cons x xs)
  then have "[x] \<in> lang (NoneOf cs)" and "xs \<in> star (lang (NoneOf cs))" by auto
  then have "[x] @ xs \<in> star (lang (NoneOf cs))" by (rule star.star_app)
  then show ?case by simp
qed

lemma Plus_NoneOf_intro:
  assumes "s \<noteq> []" and "set s \<inter> set cs = {}"
  shows "s \<in> lang (Plus (NoneOf cs))"
proof -
  from assms(1) obtain x xs where s: "s = [x] @ xs" by (cases s) auto
  with assms(2) have "x \<notin> set cs" and "set xs \<inter> set cs = {}" by auto
  then have "[x] \<in> lang (NoneOf cs)" and "xs \<in> lang (Star (NoneOf cs))"
    by (simp_all add: Star_NoneOf_intro del: lang.simps(6))
  then have "[x] @ xs \<in> lang (Seq (NoneOf cs) (Star (NoneOf cs)))"
    by (rule Seq_intro)
  with s show ?thesis by (simp only: Plus_def)
qed

lemma Opt_intro: "u \<in> lang r \<Longrightarrow> u \<in> lang (Opt r)"
  by (simp add: Opt_def)

lemma test_prefix_intro: "u \<in> lang r \<Longrightarrow> test_prefix r (u @ v)"
proof -
  assume "u \<in> lang r"
  moreover have "v \<in> lang (Star (NoneOf []))" by (rule Star_NoneOf_intro) simp
  ultimately have "u @ v \<in> lang (Seq r (Star (NoneOf [])))" by (rule Seq_intro)
  then show ?thesis by (simp only: test_prefix_def matches_lang)
qed

lemma test_whole_iff: "test_whole r s \<longleftrightarrow> s \<in> lang r"
  by (simp add: test_whole_def matches_lang)

lemma mailto_local_intro:
  assumes "L \<noteq> []" and "CHR ''@'' \<notin> set L"
  shows "''mailto:'' @ L \<in> lang re_mailto_local"
  unfolding re_mailto_local_def
  by (rule Seq_intro [OF Str_intro Plus_NoneOf_intro]) (use assms in simp_all)

lemma mailto_domain_intro:
  assumes "L \<noteq> []" and "CHR ''@'' \<notin> set L" and "D \<noteq> []" and "CHR ''?'' \<notin> set D"
  shows "''mailto:'' @ L @ [CHR ''@''] @ D \<in> lang re_mailto_domain"
  unfolding re_mailto_domain_def
  by (rule Seq_intro [OF Str_intro Seq_intro [OF Plus_NoneOf_intro Seq_intro [OF Lit_intro Plus_NoneOf_intro]]])
     (use assms in simp_all)

lemma mailto_keys_intro:
  assumes "k \<in> {''subject'', ''cc'', ''bcc'', ''body''}"
  shows "k \<in> lang mailto_keys"
proof -
  have "k \<in> lang (Str k)" by (rule Str_intro)
  with assms show ?thesis
    unfolding mailto_keys_def lang.simps(5) by blast
qed

lemma mailto_pair_intro:
  assumes "k \<in> {''subject'', ''cc'', ''bcc'', ''body''}" and "v \<noteq> []" and "CHR ''&'' \<notin> set v"
    and "w \<in> lang r"
  shows "[c] @ k @ [CHR ''=''] @ v @ w
    \<in> lang (Seq (Lit c) (Seq mailto_keys (Seq (Lit CHR ''='') (Seq (Plus (NoneOf ''&'')) r))))"
  by (rule Seq_intro [OF Lit_intro Seq_intro [OF mailto_keys_intro Seq_intro [OF Lit_intro Seq_intro [OF Plus_NoneOf_intro]]]])
     (use assms in simp_all)


section \<open>The mailto validator\<close>

lemmas mailto_eval =
  validMailto_def test_prefix_def test_whole_def re_mailto_local_def re_mailto_domain_def
  re_mailto_query_def mailto_keys_def Plus_def Opt_def Lit_def

text \<open>
  C1, as the specification states it, fails: \<^verbatim>\<open>mailto:a\<close> has the local-part \<^verbatim>\<open>a\<close>, so the
  first test of \<^verbatim>\<open>validMailto\<close> passes; the link has no \<^verbatim>\<open>@\<close>, so the second test fails and
  the result is \<^verbatim>\<open>"invalid domain"\<close>, not \<^verbatim>\<open>"invalid local-part"\<close>.
\<close>

theorem mailto_examples_counterexample:
  "validMailto ''mailto:a'' \<noteq> Some ''invalid local-part''"
  by (simp add: mailto_eval)

text \<open>
  C1, amended: the mailto validator returns null for \<^verbatim>\<open>mailto:a@b.com\<close>, returns
  \<^verbatim>\<open>"invalid domain"\<close> for \<^verbatim>\<open>mailto:a\<close>, returns null for \<^verbatim>\<open>mailto:a@b?subject=x&cc=y\<close> and
  returns \<^verbatim>\<open>"invalid query params"\<close> for \<^verbatim>\<open>mailto:a@b?foo=x\<close>.
\<close>

theorem mailto_examples:
  "validMailto ''mailto:a@b.com'' = None
   \<and> validMailto ''mailto:a'' = Some ''invalid domain''
   \<and> validMailto ''mailto:a@b?subject=x&cc=y'' = None
   \<and> validMailto ''mailto:a@b?foo=x'' = Some ''invalid query params''"
  by (simp add: mailto_eval)

text \<open>
  C10: the query grammar of the mailto validator does not ask for two distinct keys. For
  every non-empty local-part \<open>L\<close> without \<^verbatim>\<open>@\<close>, non-empty domain \<open>D\<close> without \<^verbatim>\<open>?\<close>, key \<open>k\<close>
  among subject, cc, bcc and body, and non-empty values \<open>v1\<close> and \<open>v2\<close> without \<^verbatim>\<open>&\<close>, the
  link \<^verbatim>\<open>mailto:L@D?k=v1&k=v2\<close> is valid (the result is null).
\<close>

theorem mailto_same_key_twice:
  assumes "L \<noteq> []" and "CHR ''@'' \<notin> set L" and "D \<noteq> []" and "CHR ''?'' \<notin> set D"
    and "k \<in> {''subject'', ''cc'', ''bcc'', ''body''}"
    and "v1 \<noteq> []" and "CHR ''&'' \<notin> set v1" and "v2 \<noteq> []" and "CHR ''&'' \<notin> set v2"
  shows "validMailto (''mailto:'' @ L @ ''@'' @ D @ ''?'' @ k @ ''='' @ v1 @ ''&'' @ k @ ''='' @ v2)
           = None"
proof -
  let ?link = "''mailto:'' @ L @ ''@'' @ D @ ''?'' @ k @ ''='' @ v1 @ ''&'' @ k @ ''='' @ v2"
  let ?query = "[CHR ''?''] @ k @ [CHR ''=''] @ v1 @ [CHR ''&''] @ k @ [CHR ''=''] @ v2 @ []"
  have "test_prefix re_mailto_local
          ((''mailto:'' @ L) @ ''@'' @ D @ ''?'' @ k @ ''='' @ v1 @ ''&'' @ k @ ''='' @ v2)"
    using assms(1,2) by (intro test_prefix_intro mailto_local_intro)
  then have 1: "test_prefix re_mailto_local ?link" by simp
  have dom: "''mailto:'' @ L @ [CHR ''@''] @ D \<in> lang re_mailto_domain"
    using assms(1-4) by (rule mailto_domain_intro)
  then have "test_prefix re_mailto_domain ((''mailto:'' @ L @ [CHR ''@''] @ D) @ ?query)"
    by (rule test_prefix_intro)
  then have 2: "test_prefix re_mailto_domain ?link" by simp
  have "[] \<in> lang Eps" by simp
  then have "[CHR ''&''] @ k @ [CHR ''=''] @ v2 @ []
      \<in> lang (Seq (Lit CHR ''&'') (Seq mailto_keys (Seq (Lit CHR ''='')
           (Seq (Plus (NoneOf ''&'')) Eps))))"
    using assms(5,8,9) by (intro mailto_pair_intro)
  then have "[CHR ''&''] @ k @ [CHR ''=''] @ v2 @ []
      \<in> lang (Opt (Seq (Lit CHR ''&'') (Seq mailto_keys (Seq (Lit CHR ''='')
           (Plus (NoneOf ''&''))))))"
    by (simp add: Opt_def conc_def)
  then have "?query \<in> lang (Seq (Lit CHR ''?'') (Seq mailto_keys (Seq (Lit CHR ''='')
      (Seq (Plus (NoneOf ''&'')) (Opt (Seq (Lit CHR ''&'') (Seq mailto_keys (Seq (Lit CHR ''='')
         (Plus (NoneOf ''&'')))))))))) "
    using assms(5,6,7) by (intro mailto_pair_intro)
  then have "(''mailto:'' @ L @ [CHR ''@''] @ D) @ ?query \<in> lang re_mailto_query"
    unfolding re_mailto_query_def by (rule Seq_intro [OF dom Opt_intro])
  then have 3: "test_whole re_mailto_query ?link"
    by (simp add: test_whole_iff)
  from 1 2 3 show ?thesis by (simp add: validMailto_def)
qed

theorem mailto_same_key_twice_witness:
  "''a'' \<noteq> [] \<and> CHR ''@'' \<notin> set ''a'' \<and> ''b'' \<noteq> [] \<and> CHR ''?'' \<notin> set ''b''
     \<and> ''cc'' \<in> {''subject'', ''cc'', ''bcc'', ''body''}
     \<and> ''x'' \<noteq> [] \<and> CHR ''&'' \<notin> set ''x'' \<and> ''y'' \<noteq> [] \<and> CHR ''&'' \<notin> set ''y''
     \<and> validMailto ''mailto:a@b?cc=x&cc=y'' = None"
  using mailto_same_key_twice [of "''a''" "''b''" "''cc''" "''x''" "''y''"] by simp


section \<open>The sms and tel validators\<close>

lemma lang_Str: "lang (Str t) = {t}"
proof (induction t)
  case Nil
  show ?case by simp
next
  case (Cons c t)
  then show ?case by (auto simp: Lit_def conc_def)
qed

lemma star_OneOf: "s \<in> lang (Star (OneOf cs)) \<longleftrightarrow> set s \<subseteq> set cs"
proof (induction s)
  case Nil
  show ?case by (simp add: star.star_nil)
next
  case (Cons c s)
  have "c # s \<in> lang (Star (OneOf cs)) \<longleftrightarrow> c \<in> set cs \<and> s \<in> lang (Star (OneOf cs))"
    by (auto simp: star_cons_iff)
  with Cons show ?case by simp
qed

lemma star_unfold: "star A = insert [] (conc A (star A))"
proof -
  have "w \<in> insert [] (conc A (star A))" if "w \<in> star A" for w
    using that by cases (auto simp: conc_def)
  moreover have "w \<in> star A" if "w \<in> insert [] (conc A (star A))" for w
    using that by (auto simp: conc_def intro: star.intros)
  ultimately show ?thesis by blast
qed

lemma lang_Opt_Plus: "lang (Opt (Plus r)) = lang (Star r)"
  using star_unfold [of "lang r"] by (auto simp: Opt_def Plus_def)

lemma phone_grammar:
  "test_whole (Seq (Str p) (Opt (Plus (OneOf cs)))) s
     \<longleftrightarrow> (\<exists>ds. s = p @ ds \<and> set ds \<subseteq> set cs)"
proof -
  have "s \<in> lang (Seq (Str p) (Opt (Plus (OneOf cs))))
          \<longleftrightarrow> (\<exists>ds. s = p @ ds \<and> ds \<in> lang (Star (OneOf cs)))"
    unfolding lang.simps(4) lang_Opt_Plus lang_Str by (auto simp: conc_def)
  then show ?thesis by (simp only: test_whole_def matches_lang star_OneOf)
qed

lemmas tel_eval =
  validTel_def strip_spaces_def test_whole_def re_tel_def phone_chars_def Opt_def Plus_def
  Lit_def

text \<open>
  C7, as the specification states it, fails: a link with a space whose other characters
  do not fit the grammar gets \<^verbatim>\<open>"invalid"\<close>, not \<^verbatim>\<open>"contains a space"\<close>, since the grammar is
  tested first, on the link without its spaces.
\<close>

theorem sms_tel_space_counterexample:
  "CHR '' '' \<in> set ''tel:a b'' \<and> validTel ''tel:a b'' \<noteq> Some ''contains a space''"
  by (simp add: tel_eval)

text \<open>
  C7, amended: for every sms: or tel: link, the validator removes all spaces and tests
  whether what remains is the scheme prefix followed by any number of digits, \<^verbatim>\<open>.\<close>, \<^verbatim>\<open>+\<close>
  and \<^verbatim>\<open>-\<close>. If it is not, the result is \<^verbatim>\<open>"invalid"\<close>, whether the link has a space or not.
  If it is and the link has a space, the result is \<^verbatim>\<open>"contains a space"\<close> (as for
  \<^verbatim>\<open>tel:+1 234\<close>); if it is and the link has no space, the link is valid.
\<close>

theorem sms_tel_results:
  "validSms l =
     (if \<not> (\<exists>ds. strip_spaces l = ''sms:'' @ ds \<and> set ds \<subseteq> set ''0123456789.+-'')
      then Some ''invalid''
      else if CHR '' '' \<in> set l then Some ''contains a space'' else None)
   \<and> validTel l =
     (if \<not> (\<exists>ds. strip_spaces l = ''tel:'' @ ds \<and> set ds \<subseteq> set ''0123456789.+-'')
      then Some ''invalid''
      else if CHR '' '' \<in> set l then Some ''contains a space'' else None)"
  unfolding validSms_def validTel_def re_sms_def re_tel_def phone_grammar phone_chars_def
  by simp

lemma tel_example: "validTel ''tel:+1 234'' = Some ''contains a space''"
  by (simp add: tel_eval)

section \<open>The local resolver\<close>

text \<open>The three examples of the specification.\<close>

lemma validLocal_examples:
  "validLocal [''a/b.html'' \<mapsto> True, ''a/index.html'' \<mapsto> True] ''a/b.html'' ''./''
   \<and> validLocal [''a/b.html'' \<mapsto> True, ''a/index.html'' \<mapsto> True] ''a/b.html'' ''../a''
   \<and> \<not> validLocal [''a/b.html'' \<mapsto> True, ''a/index.html'' \<mapsto> True] ''a/b.html'' ''/missing''"
  by code_simp

text \<open>
  C8 does not hold of the code: \<^verbatim>\<open>linkPath in files\<close> is true of the name of every member
  of \<^verbatim>\<open>Object.prototype\<close>, so the link \<^verbatim>\<open>/toString\<close> is valid although neither \<^verbatim>\<open>toString\<close> nor
  \<^verbatim>\<open>toString/index.html\<close> is a key of the document set.
\<close>

theorem validLocal_inherited_key:
  "validLocal [''a/b.html'' \<mapsto> True, ''a/index.html'' \<mapsto> True] ''a/b.html'' ''/toString''
   \<and> [''a/b.html'' \<mapsto> True, ''a/index.html'' \<mapsto> True] ''toString'' = None
   \<and> [''a/b.html'' \<mapsto> True, ''a/index.html'' \<mapsto> True] ''toString/index.html'' = None"
  by code_simp

section \<open>The completion callback and the report\<close>








lemma completion_total:
  assumes "filename ` set (broken results) \<inter> set object_prototype_props = {}"
  shows "\<exists>calls. completion None results = Inr calls"
proof -
  have "\<exists>obj'. filenamesToLinkErrors obj cs = Inr obj'"
    if "filename ` set cs \<inter> set object_prototype_props = {}" for obj cs
    using that by (induction cs arbitrary: obj) auto
  from this [OF assms, of "[]"] show ?thesis
    by (auto simp: completion_def broken_def)
qed

lemmas run_eval =
  plugin_def checkLink_def callbackResult_def completion_def linkError_def truthy_def
  lines_of_def validLocal_def self_reference_def js_in_def object_prototype_props_def
  path_join_def normalize_def normalizeString_def normalize_step_def dirname_def
  test_whole_def Dot_def line_terminators_def normalize_filename_def Let_def

text \<open>
  C2 does not hold of the code: after \<^verbatim>\<open>done\<close> has been called with the failure text, the
  callback goes on to the call \<^verbatim>\<open>done()\<close> of line 447, so a run with a broken link calls
  \<^verbatim>\<open>done\<close> twice, first with the report and then with no error.
\<close>

theorem done_called_twice:
  "plugin sample_urlScheme net_ok id default_options [''index.html'']
       [\<lparr>filename = ''index.html'', link = ''/missing''\<rparr>] initial_world
     = Inr ([Done (Some ''Broken links found:\<newline>\<newline>index.html:\<newline>  /missing (not found)''),
             Done None], initial_world)"
  by (simp add: run_eval sample_urlScheme_def default_options_def)



section \<open>The network validator\<close>


















section \<open>The cache across runs\<close>









end
